theory Spec2Isabelle
  imports Complex_Main
begin

section \<open>Values exchanged with the SDK and the browser\<close>

text \<open>
  The example pages are thin glue over the SDK packages. Every SDK call is opaque: its
  outcome (a returned value or a thrown value) is an input of the model. A thrown value is
  either an \<open>Error\<close> object with its message, or any other value, kept as the string
  that \<open>String(error)\<close> gives for it.
\<close>

datatype thrown = JsError string | JsOther string

text \<open>The expression \<open>error instanceof Error ? error.message : String(error)\<close>.\<close>

fun error_text :: "thrown \<Rightarrow> string" where
  "error_text (JsError m) = m"
| "error_text (JsOther s) = s"

text \<open>
  A JavaScript number where \<open>NaN\<close> matters (form input read with \<open>parseFloat\<close>,
  itinerary distance and duration): \<open>NaN\<close> or a real number. Rounding of doubles is not
  modelled; infinities are left out.
\<close>

datatype jsnum = NaN | Num real

fun isNaN :: "jsnum \<Rightarrow> bool" where
  "isNaN NaN = True"
| "isNaN (Num x) = False"

text \<open>Truthiness of a number (\<open>x ? a : b\<close>): false for \<open>0\<close> and \<open>NaN\<close>.\<close>

fun truthy_num :: "jsnum \<Rightarrow> bool" where
  "truthy_num NaN = False"
| "truthy_num (Num x) = (x \<noteq> 0)"

text \<open>Truthiness of a \<open>string | null\<close> variable: false for \<open>null\<close> and for the empty string.\<close>

fun truthy_str :: "string option \<Rightarrow> bool" where
  "truthy_str None = False"
| "truthy_str (Some m) = (m \<noteq> [])"

text \<open>
  The glyphs of the status texts, as UTF-8 bytes: U+25CF (black circle) and U+25CB
  (white circle).
\<close>

definition BLACK_CIRCLE :: string where
  "BLACK_CIRCLE = [CHR 0xE2, CHR 0x97, CHR 0x8F]"

definition WHITE_CIRCLE :: string where
  "WHITE_CIRCLE = [CHR 0xE2, CHR 0x97, CHR 0x8B]"

subsection \<open>Poses, coordinates, itineraries\<close>

text \<open>
  A pose position is tested with \<open>'latitude' in position\<close> before it is read, so each
  key is optional in the model.
\<close>

record Position =
  latitude :: "real option"
  longitude :: "real option"
  altitude :: "real option"
  level :: "real option"

record Attitude =
  heading :: "real option"
  pitch :: "real option"
  roll :: "real option"

record Pose =
  position :: "Position option"
  attitude :: "Attitude option"
  accuracy :: "real option"

text \<open>The initial value \<open>{}\<close> of the pose variables.\<close>

definition empty_pose :: Pose where
  "empty_pose = \<lparr>position = None, attitude = None, accuracy = None\<rparr>"

text \<open>\<open>new Coordinates(lat, lon)\<close> of the routing package, and \<open>{ lat, lon }\<close> literals.\<close>

datatype Coordinates = Coordinates (coord_latitude: real) (coord_longitude: real)

record LatLon =
  lat :: real
  lon :: real

record Leg =
  leg_instruction :: string
  leg_distance :: jsnum
  leg_duration :: jsnum

record Itinerary =
  coords :: "Coordinates list"
  distance :: jsnum
  duration :: jsnum
  legs :: "Leg list"

text \<open>The navigation information that \<open>ItineraryInfoManager.getInfo\<close> returns.\<close>

record ItineraryInfo =
  traveledDistance :: real
  remainingDistance :: real
  traveledPercentage :: real
  remainingPercentage :: real

record ItineraryInfoManager =
  manager_itinerary :: "Itinerary option"

datatype Router = Router

datatype Camera = Camera

subsection \<open>The map widget\<close>

text \<open>
  What the pages use of the map widget: whether it reports itself loaded, and the ids of
  its sources and layers. Camera framing (\<open>fitBounds\<close>, \<open>flyTo\<close>) is left out.
\<close>

record MapWidget =
  loaded :: bool
  sources :: "string list"
  layers :: "string list"

record Marker =
  marker_color :: string
  marker_lngLat :: "real \<times> real"

definition getSource :: "string \<Rightarrow> MapWidget \<Rightarrow> bool" where
  "getSource sid m = (sid \<in> set (sources m))"

definition getLayer :: "string \<Rightarrow> MapWidget \<Rightarrow> bool" where
  "getLayer lid m = (lid \<in> set (layers m))"

definition removeLayer :: "string \<Rightarrow> MapWidget \<Rightarrow> MapWidget" where
  "removeLayer lid m = m\<lparr>layers := removeAll lid (layers m)\<rparr>"

definition removeSource :: "string \<Rightarrow> MapWidget \<Rightarrow> MapWidget" where
  "removeSource sid m = m\<lparr>sources := removeAll sid (sources m)\<rparr>"

definition addSource :: "string \<Rightarrow> MapWidget \<Rightarrow> MapWidget" where
  "addSource sid m = m\<lparr>sources := sources m @ [sid]\<rparr>"

definition addLayer :: "string \<Rightarrow> MapWidget \<Rightarrow> MapWidget" where
  "addLayer lid m = m\<lparr>layers := layers m @ [lid]\<rparr>"

section \<open>Page state\<close>

text \<open>
  What a page renders is kept as a record of the interpolated parts of its markup; the
  static markup around them is left out. \<open>None\<close> for a displayed message means that
  the element is hidden or the fragment is empty.
\<close>

record gnss_view =
  gnss_status_text :: string
  gnss_updates_text :: nat
  gnss_error_inline :: "string option"
  start_gnss_disabled :: bool
  stop_gnss_disabled :: bool
  gnss_pose_rendered :: Pose

record vps_view =
  scan_status_text :: string
  vps_update_count_text :: nat
  vps_error_display :: "string option"
  vps_pose_rendered :: Pose
  camera_section_shown :: bool

datatype itinerary_info_html =
  NoItineraryYet
| RouteInformation (distanceKm: string) (durationMin: string) (legsCount: nat)

datatype navigation_info_html =
  NavigationPlaceholder
| NavigationInformation ItineraryInfo

record routing_view =
  router_status_text :: string
  router_error_message :: "string option"
  init_router_disabled :: bool
  calculate_route_disabled :: bool
  calculate_route_text :: string
  clear_route_disabled :: bool
  set_test_position_disabled :: "bool option"
  itinerary_info_container :: itinerary_info_html
  navigation_info_container :: navigation_info_html

record mm_view =
  mm_status_active :: bool
  mm_itinerary_info :: "string option"
  set_route_from_position_disabled :: bool
  mm_gnss_status_text :: string
  mm_updates_text :: nat
  mm_error_inline :: "string option"
  mm_pose_rendered :: Pose

record DestinationCoords =
  dest_lat :: real
  dest_lon :: real
  dest_level :: "real option"

record combined_view =
  destination_info :: "DestinationCoords option"
  start_gnss_btn_disabled :: bool
  start_itinerary_disabled :: bool
  start_itinerary_text :: string
  update_level_disabled :: bool

text \<open>
  Each example page is a standalone script. The record below collects the module-level
  variables of the pages under their source names; the functions of a page read and
  write the variables that page declares. Added to them are the effects a page has
  outside its variables: the messages passed to \<open>alert\<close>, what it last rendered
  (\<open>None\<close> before the first rendering; the combined page starts with what its
  initialisation renders), the active itinerary held by \<open>MapMatching\<close>, the SDK calls
  it issued whose promise has not settled yet, and the calls to \<open>stopScan\<close>.
\<close>

record page =
  gnssPose :: Pose
  gnssUpdateCount :: nat
  gnssRunning :: bool
  gnssError :: "string option"
  vpsPose :: Pose
  vpsUpdateCount :: nat
  vpsError :: "string option"
  isScanning :: bool
  camera :: "Camera option"
  router :: "Router option"
  currentItinerary :: "Itinerary option"
  routeError :: "string option"
  isCalculating :: bool
  navigationInfo :: "ItineraryInfo option"
  testPosition :: "LatLon option"
  itineraryInfoManager :: "ItineraryInfoManager option"
  originPosition :: "LatLon option"
  destinationPosition :: "LatLon option"
  mapgl :: "MapWidget option"
  routeSourceId :: "string option"
  originMarker :: "Marker option"
  destinationMarker :: "Marker option"
  testPositionMarker :: "Marker option"
  userMarker :: "Marker option"
  markerConeElement :: "real option option"
  itineraryInfo :: string
  itinerarySourceId :: "string option"
  destinationCoords :: "DestinationCoords option"
  destinationLevelInput :: "real option"
  isCalculatingRoute :: bool
  alerts :: "string list"
  gnss_rendered :: "gnss_view option"
  vps_rendered :: "vps_view option"
  routing_rendered :: "routing_view option"
  mm_rendered :: "mm_view option"
  combined_rendered :: combined_view
  mapMatching_itinerary :: "Itinerary option"
  directions_pending :: "(Coordinates \<times> Coordinates \<times> string) list"
  scans_pending :: nat
  stopScan_calls :: nat

text \<open>The state of a page when its script has run its declarations.\<close>

definition initial_page :: page where
  "initial_page = \<lparr>
     gnssPose = empty_pose, gnssUpdateCount = 0, gnssRunning = False, gnssError = None,
     vpsPose = empty_pose, vpsUpdateCount = 0, vpsError = None, isScanning = False,
     camera = None, router = None, currentItinerary = None, routeError = None,
     isCalculating = False, navigationInfo = None, testPosition = None,
     itineraryInfoManager = None, originPosition = None, destinationPosition = None,
     mapgl = None, routeSourceId = None, originMarker = None, destinationMarker = None,
     testPositionMarker = None, userMarker = None, markerConeElement = None,
     itineraryInfo = ''No itinerary set'', itinerarySourceId = None,
     destinationCoords = None, destinationLevelInput = None, isCalculatingRoute = False,
     alerts = [], gnss_rendered = None, vps_rendered = None, routing_rendered = None,
     mm_rendered = None,
     combined_rendered = \<lparr>destination_info = None, start_gnss_btn_disabled = False,
       start_itinerary_disabled = True, start_itinerary_text = ''Start Itinerary'',
       update_level_disabled = True\<rparr>,
     mapMatching_itinerary = None,
     directions_pending = [], scans_pending = 0, stopScan_calls = 0\<rparr>"

text \<open>\<open>alert(message)\<close>: the browser shows the message; the model records it.\<close>

definition alert :: "string \<Rightarrow> page \<Rightarrow> page" where
  "alert message s = s\<lparr>alerts := alerts s @ [message]\<rparr>"

section \<open>The GnssWifiLocationSource page (gnss-location-source.ts)\<close>

text \<open>
  \<open>updateUI\<close> rewrites the markup of the page from the variables: the status text, the
  update count, the error fragment (present when \<open>gnssError\<close> is truthy), the
  \<open>disabled\<close> attribute of the two buttons, and the pose.
\<close>

definition updateUI_gnss :: "page \<Rightarrow> page" where
  "updateUI_gnss s = s\<lparr>gnss_rendered := Some \<lparr>
     gnss_status_text =
       (if gnssRunning s then BLACK_CIRCLE @ '' Running'' else WHITE_CIRCLE @ '' Stopped''),
     gnss_updates_text = gnssUpdateCount s,
     gnss_error_inline = (if truthy_str (gnssError s) then gnssError s else None),
     start_gnss_disabled = gnssRunning s,
     stop_gnss_disabled = (\<not> gnssRunning s),
     gnss_pose_rendered = gnssPose s\<rparr>\<rparr>"

text \<open>The listeners registered with \<open>onUpdate\<close> and \<open>onError\<close>.\<close>

definition gnss_onUpdate :: "Pose \<Rightarrow> page \<Rightarrow> page" where
  "gnss_onUpdate pose s =
     updateUI_gnss (s\<lparr>gnssPose := pose, gnssUpdateCount := gnssUpdateCount s + 1\<rparr>)"

definition gnss_onError :: "string \<Rightarrow> page \<Rightarrow> page" where
  "gnss_onError message s = updateUI_gnss (s\<lparr>gnssError := Some message\<rparr>)"

text \<open>
  A handler takes the outcome of the SDK call it awaits (\<open>Inl\<close> a thrown value) and
  returns the value it throws to its caller, if any, with the page it leaves.
\<close>

definition handleStartGnss :: "thrown + unit \<Rightarrow> page \<Rightarrow> thrown option \<times> page" where
  "handleStartGnss start_outcome s =
     (case start_outcome of
        Inr _ \<Rightarrow> (None, updateUI_gnss (s\<lparr>gnssRunning := True, gnssError := None\<rparr>))
      | Inl error \<Rightarrow>
          (let s1 = s\<lparr>gnssError := Some (error_text error)\<rparr>;
               s2 = updateUI_gnss s1
           in (None,
               alert (''Failed to start GnssWifiLocationSource: '' @ error_text error) s2)))"

definition handleStopGnss :: "thrown + unit \<Rightarrow> page \<Rightarrow> thrown option \<times> page" where
  "handleStopGnss stop_outcome s =
     (case stop_outcome of
        Inr _ \<Rightarrow> (None, updateUI_gnss (s\<lparr>gnssRunning := False, gnssError := None\<rparr>))
      | Inl error \<Rightarrow> (None, updateUI_gnss (s\<lparr>gnssError := Some (error_text error)\<rparr>)))"

section \<open>The VPSLocationSource page (vps-location-source.ts)\<close>

text \<open>
  \<open>updateUI\<close> of this page writes into elements of the markup. The status of the source
  itself is read from the SDK object and is left out.
\<close>

definition updateUI_vps :: "page \<Rightarrow> page" where
  "updateUI_vps s = s\<lparr>vps_rendered := Some \<lparr>
     scan_status_text =
       (if isScanning s then BLACK_CIRCLE @ '' Running'' else WHITE_CIRCLE @ '' Stopped''),
     vps_update_count_text = vpsUpdateCount s,
     vps_error_display = (if truthy_str (vpsError s) then vpsError s else None),
     vps_pose_rendered = vpsPose s,
     camera_section_shown = (camera s \<noteq> None)\<rparr>\<rparr>"


definition stopCamera :: "thrown + unit \<Rightarrow> page \<Rightarrow> page" where
  "stopCamera camera_stop_outcome s =
     (case camera s of
        None \<Rightarrow> s
      | Some _ \<Rightarrow>
          (case camera_stop_outcome of
             Inr _ \<Rightarrow> s\<lparr>camera := None\<rparr>
           | Inl _ \<Rightarrow> s))"





section \<open>Number formatting\<close>

text \<open>
  \<open>Number.prototype.toFixed\<close> and \<open>Math.round\<close> on real numbers: \<open>toFixed\<close> takes the
  integer \<open>n\<close> nearest to \<open>x * 10^f\<close> (the larger one on a tie, after the sign has been
  split off) and writes it with \<open>f\<close> digits after the point; \<open>Math.round\<close> rounds to the
  nearest integer, a tie upwards.
\<close>

definition digit_char :: "nat \<Rightarrow> char" where
  "digit_char d = ''0123456789'' ! (d mod 10)"

function show_nat :: "nat \<Rightarrow> string" where
  "show_nat n = (if n < 10 then [digit_char n] else show_nat (n div 10) @ [digit_char (n mod 10)])"
  by pat_completeness auto
termination
  by (relation "measure id") auto

declare show_nat.simps [simp del]

definition show_int :: "int \<Rightarrow> string" where
  "show_int i = (if i < 0 then ''-'' @ show_nat (nat (- i)) else show_nat (nat i))"

definition Math_round :: "real \<Rightarrow> int" where
  "Math_round x = \<lfloor>x + 1 / 2\<rfloor>"

definition toFixed_digits :: "nat \<Rightarrow> nat \<Rightarrow> string" where
  "toFixed_digits f n =
     (let m = show_nat n;
          m' = (if length m \<le> f then replicate (f + 1 - length m) CHR ''0'' @ m else m);
          k = length m'
      in if f = 0 then m' else take (k - f) m' @ ''.'' @ drop (k - f) m')"

definition toFixed :: "nat \<Rightarrow> real \<Rightarrow> string" where
  "toFixed f x =
     (if x < 0 then ''-'' @ toFixed_digits f (nat \<lfloor>(- x) * 10 ^ f + 1 / 2\<rfloor>)
      else toFixed_digits f (nat \<lfloor>x * 10 ^ f + 1 / 2\<rfloor>))"

section \<open>The routing page (routing.ts)\<close>

text \<open>
  \<open>renderItineraryInfo\<close>: the distance and the duration are shown when they are truthy,
  and \<open>N/A\<close> stands for them otherwise. The list of legs, the number of points and the
  raw data are left out of the model.
\<close>

definition renderItineraryInfo :: "page \<Rightarrow> itinerary_info_html" where
  "renderItineraryInfo s =
     (case currentItinerary s of
        None \<Rightarrow> NoItineraryYet
      | Some it \<Rightarrow>
          RouteInformation
            (case distance it of
               Num d \<Rightarrow> if d \<noteq> 0 then toFixed 2 (d / 1000) @ '' km'' else ''N/A''
             | NaN \<Rightarrow> ''N/A'')
            (case duration it of
               Num t \<Rightarrow> if t \<noteq> 0 then show_int (Math_round (t / 60)) @ '' min'' else ''N/A''
             | NaN \<Rightarrow> ''N/A'')
            (length (legs it)))"

text \<open>
  \<open>renderNavigationInfo\<close>: the placeholder paragraph when there is no navigation
  information, its fields otherwise.
\<close>

definition renderNavigationInfo :: "page \<Rightarrow> navigation_info_html" where
  "renderNavigationInfo s =
     (case navigationInfo s of
        None \<Rightarrow> NavigationPlaceholder
      | Some info \<Rightarrow> NavigationInformation info)"

text \<open>\<open>updateUI\<close>, with the elements of routing.html taken to be present.\<close>

definition updateUI_routing :: "page \<Rightarrow> page" where
  "updateUI_routing s = s\<lparr>routing_rendered := Some \<lparr>
     router_status_text =
       (if router s \<noteq> None then BLACK_CIRCLE @ '' Initialized''
        else WHITE_CIRCLE @ '' Not Initialized''),
     router_error_message = (if truthy_str (routeError s) then routeError s else None),
     init_router_disabled = (router s \<noteq> None),
     calculate_route_disabled =
       (router s = None \<or> isCalculating s \<or> originPosition s = None
        \<or> destinationPosition s = None),
     calculate_route_text = (if isCalculating s then ''Calculating...'' else ''Calculate Route''),
     clear_route_disabled = (currentItinerary s = None),
     set_test_position_disabled = None,
     itinerary_info_container = renderItineraryInfo s,
     navigation_info_container = renderNavigationInfo s\<rparr>\<rparr>"

definition initializeRouter :: "thrown + unit \<Rightarrow> page \<Rightarrow> page" where
  "initializeRouter constructor_outcome s =
     (case constructor_outcome of
        Inr _ \<Rightarrow> updateUI_routing (s\<lparr>router := Some Router\<rparr>)
      | Inl error \<Rightarrow> updateUI_routing (s\<lparr>routeError := Some (error_text error)\<rparr>))"

definition updateMapTestPosition :: "page \<Rightarrow> page" where
  "updateMapTestPosition s =
     (case (case mapgl s of
              None \<Rightarrow> None
            | Some m \<Rightarrow> if loaded m then testPosition s else None) of
        None \<Rightarrow> s\<lparr>testPositionMarker := None\<rparr>
      | Some p \<Rightarrow>
          (case testPositionMarker s of
             None \<Rightarrow>
               s\<lparr>testPositionMarker :=
                    Some \<lparr>marker_color = ''#ffc107'', marker_lngLat = (lon p, lat p)\<rparr>\<rparr>
           | Some mk \<Rightarrow>
               s\<lparr>testPositionMarker := Some (mk\<lparr>marker_lngLat := (lon p, lat p)\<rparr>)\<rparr>))"

text \<open>
  \<open>updateNavigationInfo\<close> asks the SDK for the navigation information at the test
  position; \<open>getInfo\<close> is the SDK's answer for a manager and a position.
\<close>

definition updateNavigationInfo ::
  "(ItineraryInfoManager \<Rightarrow> Coordinates \<Rightarrow> thrown + ItineraryInfo option) \<Rightarrow> page \<Rightarrow> page" where
  "updateNavigationInfo getInfo s =
     (case (itineraryInfoManager s, testPosition s, currentItinerary s) of
        (Some manager, Some p, Some _) \<Rightarrow>
          (case getInfo manager (Coordinates (lat p) (lon p)) of
             Inr info \<Rightarrow> updateMapTestPosition (s\<lparr>navigationInfo := info\<rparr>)
           | Inl _ \<Rightarrow> updateMapTestPosition (s\<lparr>navigationInfo := None\<rparr>))
      | _ \<Rightarrow> updateMapTestPosition (s\<lparr>navigationInfo := None\<rparr>))"

text \<open>Removing the route line of a map: the layer \<open>route\<close> if present, then the source.\<close>

definition remove_route :: "string \<Rightarrow> MapWidget \<Rightarrow> MapWidget" where
  "remove_route sid m =
     removeSource sid (if getLayer ''route'' m then removeLayer ''route'' m else m)"

text \<open>
  \<open>updateMapRoute\<close>. Without a map nothing happens. When the map is not loaded or there
  is no itinerary, the route line is removed if \<open>routeSourceId\<close> names a source of the
  map. Otherwise the line is replaced by one for the itinerary's coordinates, and the
  origin and destination markers are moved to its ends (created if absent); an
  itinerary without coordinates leaves the map as it is.
\<close>

definition updateMapRoute :: "page \<Rightarrow> page" where
  "updateMapRoute s =
     (case mapgl s of
        None \<Rightarrow> s
      | Some m \<Rightarrow>
          (case (if loaded m then currentItinerary s else None) of
             None \<Rightarrow>
               (case routeSourceId s of
                  None \<Rightarrow> s
                | Some sid \<Rightarrow>
                    if sid \<noteq> [] \<and> getSource sid m
                    then s\<lparr>mapgl := Some (remove_route sid m), routeSourceId := None\<rparr>
                    else s)
           | Some it \<Rightarrow>
               if coords it = [] then s
               else
                 (let m1 = (case routeSourceId s of
                              None \<Rightarrow> m
                            | Some sid \<Rightarrow>
                                if sid \<noteq> [] \<and> getSource sid m then remove_route sid m else m);
                      m2 = addLayer ''route'' (addSource ''route-source'' m1);
                      first = (coord_longitude (hd (coords it)), coord_latitude (hd (coords it)));
                      final = (coord_longitude (last (coords it)),
                               coord_latitude (last (coords it)))
                  in s\<lparr>mapgl := Some m2,
                       routeSourceId := Some ''route-source'',
                       originMarker :=
                         Some (case originMarker s of
                                 Some mk \<Rightarrow> mk\<lparr>marker_lngLat := first\<rparr>
                               | None \<Rightarrow> \<lparr>marker_color = ''#28a745'', marker_lngLat = first\<rparr>),
                       destinationMarker :=
                         Some (case destinationMarker s of
                                 Some mk \<Rightarrow> mk\<lparr>marker_lngLat := final\<rparr>
                               | None \<Rightarrow> \<lparr>marker_color = ''#dc3545'', marker_lngLat = final\<rparr>)\<rparr>)))"

definition updateOriginMarker :: "real \<Rightarrow> real \<Rightarrow> page \<Rightarrow> page" where
  "updateOriginMarker la lo s =
     (case mapgl s of
        None \<Rightarrow> s
      | Some m \<Rightarrow>
          if \<not> loaded m then s
          else s\<lparr>originMarker := Some \<lparr>marker_color = ''#28a745'', marker_lngLat = (lo, la)\<rparr>\<rparr>)"

definition updateDestinationMarker :: "real \<Rightarrow> real \<Rightarrow> page \<Rightarrow> page" where
  "updateDestinationMarker la lo s =
     (case mapgl s of
        None \<Rightarrow> s
      | Some m \<Rightarrow>
          if \<not> loaded m then s
          else s\<lparr>destinationMarker :=
                   Some \<lparr>marker_color = ''#dc3545'', marker_lngLat = (lo, la)\<rparr>\<rparr>)"

text \<open>
  \<open>calculateRoute\<close> is split where it awaits \<open>router.directions\<close>. The first part
  returns early without a router; otherwise it raises the calculating flag, clears the
  error, renders, and issues the call, whose promise is then pending. The second part
  is the continuation for the settled promise: the \<open>try\<close> body after the await or the
  \<open>catch\<close> block, and then the \<open>finally\<close> block. \<open>itineraries[0]\<close> of an empty array is
  \<open>undefined\<close>, which the model reads as no itinerary.
\<close>

definition calculateRoute_begin :: "LatLon \<Rightarrow> LatLon \<Rightarrow> page \<Rightarrow> page" where
  "calculateRoute_begin from_pos to_pos s =
     (if router s = None
      then updateUI_routing (s\<lparr>routeError := Some ''Router not initialized''\<rparr>)
      else
        (let s1 = updateUI_routing (s\<lparr>isCalculating := True, routeError := None\<rparr>)
         in s1\<lparr>directions_pending := directions_pending s1 @
                  [(Coordinates (lat from_pos) (lon from_pos),
                    Coordinates (lat to_pos) (lon to_pos), ''WALK'')]\<rparr>))"

definition first_itinerary :: "Itinerary list \<Rightarrow> Itinerary option" where
  "first_itinerary itineraries = (case itineraries of [] \<Rightarrow> None | it # _ \<Rightarrow> Some it)"

definition calculateRoute_resume ::
  "(ItineraryInfoManager \<Rightarrow> Coordinates \<Rightarrow> thrown + ItineraryInfo option) \<Rightarrow>
   thrown + Itinerary list \<Rightarrow> page \<Rightarrow> thrown option \<times> page" where
  "calculateRoute_resume getInfo directions_outcome s =
     (let s_try =
            (case directions_outcome of
               Inr itineraries \<Rightarrow>
                 (let s1 = s\<lparr>currentItinerary := first_itinerary itineraries\<rparr>;
                      s2 = s1\<lparr>itineraryInfoManager :=
                                Some \<lparr>manager_itinerary = currentItinerary s1\<rparr>\<rparr>;
                      s3 = (if testPosition s2 \<noteq> None then updateNavigationInfo getInfo s2
                            else s2)
                  in updateMapRoute (updateUI_routing s3))
             | Inl error \<Rightarrow> updateUI_routing (s\<lparr>routeError := Some (error_text error)\<rparr>))
      in (None, updateUI_routing (s_try\<lparr>isCalculating := False\<rparr>)))"

text \<open>The whole of \<open>calculateRoute\<close> when nothing else runs while the call is pending.\<close>

definition calculateRoute ::
  "(ItineraryInfoManager \<Rightarrow> Coordinates \<Rightarrow> thrown + ItineraryInfo option) \<Rightarrow>
   thrown + Itinerary list \<Rightarrow> LatLon \<Rightarrow> LatLon \<Rightarrow> page \<Rightarrow> thrown option \<times> page" where
  "calculateRoute getInfo directions_outcome from_pos to_pos s =
     (if router s = None then (None, calculateRoute_begin from_pos to_pos s)
      else
        (let s1 = calculateRoute_begin from_pos to_pos s
         in calculateRoute_resume getInfo directions_outcome
              (s1\<lparr>directions_pending := butlast (directions_pending s1)\<rparr>)))"

definition handleClearRoute :: "page \<Rightarrow> page" where
  "handleClearRoute s =
     (let s1 = s\<lparr>currentItinerary := None, testPosition := None, navigationInfo := None,
                 routeError := None, originPosition := None, destinationPosition := None,
                 itineraryInfoManager := None\<rparr>;
          s2 = s1\<lparr>originMarker := None, destinationMarker := None,
                  testPositionMarker := None\<rparr>
      in updateMapTestPosition (updateMapRoute (updateUI_routing s2)))"

text \<open>
  The handlers of the popup that a click on the map opens (each receives the clicked
  latitude and longitude), of the calculate button, and of the map's \<open>load\<close> event.
\<close>

definition set_as_origin :: "real \<Rightarrow> real \<Rightarrow> page \<Rightarrow> page" where
  "set_as_origin la lng s =
     updateUI_routing (updateOriginMarker la lng (s\<lparr>originPosition := Some \<lparr>lat = la, lon = lng\<rparr>\<rparr>))"

definition set_as_destination :: "real \<Rightarrow> real \<Rightarrow> page \<Rightarrow> page" where
  "set_as_destination la lng s =
     (let s1 = updateUI_routing
                 (updateDestinationMarker la lng
                    (s\<lparr>destinationPosition := Some \<lparr>lat = la, lon = lng\<rparr>\<rparr>))
      in case (originPosition s1, router s1) of
           (Some origin, Some _) \<Rightarrow> calculateRoute_begin origin \<lparr>lat = la, lon = lng\<rparr> s1
         | _ \<Rightarrow> s1)"

definition set_as_test_position ::
  "(ItineraryInfoManager \<Rightarrow> Coordinates \<Rightarrow> thrown + ItineraryInfo option) \<Rightarrow>
   real \<Rightarrow> real \<Rightarrow> page \<Rightarrow> page" where
  "set_as_test_position getInfo la lng s =
     updateUI_routing (updateNavigationInfo getInfo (s\<lparr>testPosition := Some \<lparr>lat = la, lon = lng\<rparr>\<rparr>))"

definition calculate_route_onclick :: "page \<Rightarrow> page" where
  "calculate_route_onclick s =
     (case (originPosition s, destinationPosition s, router s) of
        (Some origin, Some destination, Some _) \<Rightarrow> calculateRoute_begin origin destination s
      | _ \<Rightarrow> s)"

definition initializeMap :: "page \<Rightarrow> page" where
  "initializeMap s =
     (case mapgl s of
        Some _ \<Rightarrow> s
      | None \<Rightarrow> s\<lparr>mapgl := Some \<lparr>loaded = False, sources = [], layers = []\<rparr>\<rparr>)"

definition map_loaded :: "page \<Rightarrow> bool" where
  "map_loaded s = (case mapgl s of None \<Rightarrow> False | Some m \<Rightarrow> loaded m)"

definition map_on_load :: "page \<Rightarrow> page" where
  "map_on_load s =
     (let s1 = updateMapTestPosition (updateMapRoute s);
          s2 = (case originPosition s1 of
                  Some p \<Rightarrow> if map_loaded s1 then updateOriginMarker (lat p) (lon p) s1 else s1
                | None \<Rightarrow> s1)
      in case destinationPosition s2 of
           Some p \<Rightarrow> if map_loaded s2 then updateDestinationMarker (lat p) (lon p) s2 else s2
         | None \<Rightarrow> s2)"

text \<open>
  What can happen on the routing page, one event at a time: the user's actions, the
  map widget creating itself, firing \<open>load\<close> and changing what \<open>loaded()\<close> reports, and
  the promise of a pending \<open>router.directions\<close> call settling (the call is named by its
  place among the pending ones).
\<close>

datatype routing_event =
  InitRouterClicked "thrown + unit"
| CalculateRouteClicked
| SetAsOrigin real real
| SetAsDestination real real
| SetAsTestPosition real real
| ClearRouteClicked
| MapCreated
| MapLoadFired
| MapLoadedReports bool
| DirectionsSettled nat "thrown + Itinerary list"

fun user_triggered :: "routing_event \<Rightarrow> bool" where
  "user_triggered (InitRouterClicked _) = True"
| "user_triggered CalculateRouteClicked = True"
| "user_triggered (SetAsOrigin _ _) = True"
| "user_triggered (SetAsDestination _ _) = True"
| "user_triggered (SetAsTestPosition _ _) = True"
| "user_triggered ClearRouteClicked = True"
| "user_triggered MapCreated = False"
| "user_triggered MapLoadFired = False"
| "user_triggered (MapLoadedReports _) = False"
| "user_triggered (DirectionsSettled _ _) = False"

definition drop_nth :: "nat \<Rightarrow> 'a list \<Rightarrow> 'a list" where
  "drop_nth i xs = take i xs @ drop (Suc i) xs"

fun routing_step ::
  "(ItineraryInfoManager \<Rightarrow> Coordinates \<Rightarrow> thrown + ItineraryInfo option) \<Rightarrow>
   routing_event \<Rightarrow> page \<Rightarrow> page" where
  "routing_step getInfo (InitRouterClicked outcome) s = initializeRouter outcome s"
| "routing_step getInfo CalculateRouteClicked s = calculate_route_onclick s"
| "routing_step getInfo (SetAsOrigin la lng) s = set_as_origin la lng s"
| "routing_step getInfo (SetAsDestination la lng) s = set_as_destination la lng s"
| "routing_step getInfo (SetAsTestPosition la lng) s = set_as_test_position getInfo la lng s"
| "routing_step getInfo ClearRouteClicked s = handleClearRoute s"
| "routing_step getInfo MapCreated s = initializeMap s"
| "routing_step getInfo MapLoadFired s =
     map_on_load (case mapgl s of None \<Rightarrow> s | Some m \<Rightarrow> s\<lparr>mapgl := Some (m\<lparr>loaded := True\<rparr>)\<rparr>)"
| "routing_step getInfo (MapLoadedReports b) s =
     (case mapgl s of None \<Rightarrow> s | Some m \<Rightarrow> s\<lparr>mapgl := Some (m\<lparr>loaded := b\<rparr>)\<rparr>)"
| "routing_step getInfo (DirectionsSettled i outcome) s =
     (if i < length (directions_pending s)
      then snd (calculateRoute_resume getInfo outcome
                  (s\<lparr>directions_pending := drop_nth i (directions_pending s)\<rparr>))
      else s)"

fun routing_run ::
  "(ItineraryInfoManager \<Rightarrow> Coordinates \<Rightarrow> thrown + ItineraryInfo option) \<Rightarrow>
   routing_event list \<Rightarrow> page \<Rightarrow> page" where
  "routing_run getInfo [] s = s"
| "routing_run getInfo (ev # evs) s = routing_run getInfo evs (routing_step getInfo ev s)"

subsection \<open>The page with a coordinate form\<close>

text \<open>
  The second routing page of routing.ts reads the two ends of the route from a form.
  Its \<open>updateUI\<close> rewrites the whole content: the calculate button is disabled without
  a router or while calculating, and there is a button for the test position. Its
  \<open>calculateRoute\<close> starts as the one above, with this \<open>updateUI\<close>.
\<close>

definition updateUI_routing_form :: "page \<Rightarrow> page" where
  "updateUI_routing_form s = s\<lparr>routing_rendered := Some \<lparr>
     router_status_text =
       (if router s \<noteq> None then BLACK_CIRCLE @ '' Initialized''
        else WHITE_CIRCLE @ '' Not Initialized''),
     router_error_message = (if truthy_str (routeError s) then routeError s else None),
     init_router_disabled = (router s \<noteq> None),
     calculate_route_disabled = (router s = None \<or> isCalculating s),
     calculate_route_text = (if isCalculating s then ''Calculating...'' else ''Calculate Route''),
     clear_route_disabled = (currentItinerary s = None),
     set_test_position_disabled = Some (currentItinerary s = None),
     itinerary_info_container = renderItineraryInfo s,
     navigation_info_container = renderNavigationInfo s\<rparr>\<rparr>"

definition calculateRoute_form_begin :: "LatLon \<Rightarrow> LatLon \<Rightarrow> page \<Rightarrow> page" where
  "calculateRoute_form_begin from_pos to_pos s =
     (if router s = None
      then updateUI_routing_form (s\<lparr>routeError := Some ''Router not initialized''\<rparr>)
      else
        (let s1 = updateUI_routing_form (s\<lparr>isCalculating := True, routeError := None\<rparr>)
         in s1\<lparr>directions_pending := directions_pending s1 @
                  [(Coordinates (lat from_pos) (lon from_pos),
                    Coordinates (lat to_pos) (lon to_pos), ''WALK'')]\<rparr>))"

text \<open>
  \<open>handleCalculateRoute\<close>, the submit handler of the form. Its arguments are what
  \<open>parseFloat\<close> gives for the four inputs.
\<close>

definition handleCalculateRoute :: "jsnum \<Rightarrow> jsnum \<Rightarrow> jsnum \<Rightarrow> jsnum \<Rightarrow> page \<Rightarrow> page" where
  "handleCalculateRoute from_lat from_lon to_lat to_lon s =
     (if isNaN from_lat \<or> isNaN from_lon \<or> isNaN to_lat \<or> isNaN to_lon
      then alert ''Please enter valid coordinates'' s
      else
        (case (from_lat, from_lon, to_lat, to_lon) of
           (Num a, Num b, Num c, Num d) \<Rightarrow>
             calculateRoute_form_begin \<lparr>lat = a, lon = b\<rparr> \<lparr>lat = c, lon = d\<rparr> s
         | _ \<Rightarrow> s))"

section \<open>The MapMatching page (map-matching.ts)\<close>

text \<open>\<open>pose.position && 'latitude' in pose.position\<close>, and the same with both keys.\<close>

definition has_latitude :: "Pose \<Rightarrow> bool" where
  "has_latitude pose = (case position pose of None \<Rightarrow> False | Some p \<Rightarrow> latitude p \<noteq> None)"

definition has_lat_lon :: "Pose \<Rightarrow> bool" where
  "has_lat_lon pose =
     (case position pose of
        None \<Rightarrow> False
      | Some p \<Rightarrow> latitude p \<noteq> None \<and> longitude p \<noteq> None)"

definition updateUI_mm :: "page \<Rightarrow> page" where
  "updateUI_mm s = s\<lparr>mm_rendered := Some \<lparr>
     mm_status_active = (mapMatching_itinerary s \<noteq> None),
     mm_itinerary_info =
       (if mapMatching_itinerary s \<noteq> None then Some (itineraryInfo s) else None),
     set_route_from_position_disabled = (\<not> has_latitude (gnssPose s)),
     mm_gnss_status_text =
       (if gnssRunning s then BLACK_CIRCLE @ '' Running'' else WHITE_CIRCLE @ '' Stopped''),
     mm_updates_text = gnssUpdateCount s,
     mm_error_inline = (if truthy_str (gnssError s) then gnssError s else None),
     mm_pose_rendered = gnssPose s\<rparr>\<rparr>"

text \<open>The remainder operator \<open>%\<close> on numbers: the result has the sign of the dividend.\<close>

definition js_rem :: "real \<Rightarrow> real \<Rightarrow> real" where
  "js_rem x y =
     x - y * of_int (if 0 \<le> x / y then \<lfloor>x / y\<rfloor> else \<lceil>x / y\<rceil>)"

text \<open>
  \<open>updateMapUserPosition\<close> needs a loaded map and a position with both keys. It creates
  the user marker with its heading cone, or moves it, and then turns the cone to the
  heading in degrees or hides it. \<open>markerConeElement\<close> is \<open>None\<close> while the cone does not
  exist, \<open>Some None\<close> when it is hidden, and \<open>Some (Some d)\<close> when it is shown turned by
  \<open>d\<close> degrees.
\<close>

definition updateMapUserPosition_mm :: "page \<Rightarrow> page" where
  "updateMapUserPosition_mm s =
     (case (mapgl s, position (gnssPose s)) of
        (Some m, Some p) \<Rightarrow>
          (case (latitude p, longitude p) of
             (Some la, Some lo) \<Rightarrow>
               if \<not> loaded m then s
               else
                 (let s1 = (case userMarker s of
                              None \<Rightarrow>
                                s\<lparr>markerConeElement := Some None,
                                   userMarker := Some \<lparr>marker_color = ''#007bff'',
                                                        marker_lngLat = (lo, la)\<rparr>\<rparr>
                            | Some mk \<Rightarrow>
                                s\<lparr>userMarker := Some (mk\<lparr>marker_lngLat := (lo, la)\<rparr>)\<rparr>);
                      hd_opt = (case attitude (gnssPose s) of
                                  None \<Rightarrow> None
                                | Some a \<Rightarrow> heading a)
                  in case (hd_opt, markerConeElement s1) of
                       (Some h, Some _) \<Rightarrow>
                         s1\<lparr>markerConeElement :=
                              Some (Some (if h > 2 * pi then js_rem h 360
                                          else js_rem (h * 180 / pi) 360))\<rparr>
                     | (None, Some _) \<Rightarrow> s1\<lparr>markerConeElement := Some None\<rparr>
                     | (_, None) \<Rightarrow> s1)
           | _ \<Rightarrow> s)
      | _ \<Rightarrow> s)"


definition remove_itinerary_route :: "string \<Rightarrow> MapWidget \<Rightarrow> MapWidget" where
  "remove_itinerary_route sid m =
     removeSource sid
       (if getLayer ''itinerary-route'' m then removeLayer ''itinerary-route'' m else m)"

text \<open>
  \<open>updateMapItinerary\<close>. In its first branch the map is dereferenced without a check:
  with \<open>itinerarySourceId\<close> set and no map it throws a \<open>TypeError\<close>.
\<close>

definition updateMapItinerary :: "page \<Rightarrow> thrown option \<times> page" where
  "updateMapItinerary s =
     (case (case mapgl s of
              None \<Rightarrow> None
            | Some m \<Rightarrow>
                if loaded m then map_option (\<lambda>it. (m, it)) (currentItinerary s) else None) of
        None \<Rightarrow>
          (case itinerarySourceId s of
             None \<Rightarrow> (None, s)
           | Some sid \<Rightarrow>
               if sid = [] then (None, s)
               else
                 (case mapgl s of
                    None \<Rightarrow> (Some (JsError ''TypeError: map is null''), s)
                  | Some m \<Rightarrow>
                      if getSource sid m
                      then (None, s\<lparr>mapgl := Some (remove_itinerary_route sid m),
                                    itinerarySourceId := None\<rparr>)
                      else (None, s)))
      | Some (m, it) \<Rightarrow>
          if coords it = [] then (None, s)
          else
            (let m1 = (case itinerarySourceId s of
                         None \<Rightarrow> m
                       | Some sid \<Rightarrow>
                           if sid \<noteq> [] \<and> getSource sid m then remove_itinerary_route sid m
                           else m)
             in (None, s\<lparr>mapgl := Some (addLayer ''itinerary-route''
                                           (addSource ''itinerary-route-source'' m1)),
                          itinerarySourceId := Some ''itinerary-route-source''\<rparr>)))"

text \<open>
  \<open>createAndSetItinerary\<close>. The SDK constructor \<open>Itinerary.fromOrderedCoordinates\<close> is a
  parameter: it gives the itinerary for the coordinates, the two ends and the mode, or
  throws. \<open>MapMatching.setItinerary\<close> can throw as well. Whatever the \<open>try\<close> body throws
  is caught and shown in an alert.
\<close>

definition createAndSetItinerary ::
  "(Coordinates list \<Rightarrow> Coordinates \<Rightarrow> Coordinates \<Rightarrow> string \<Rightarrow> thrown + Itinerary) \<Rightarrow>
   thrown + unit \<Rightarrow> LatLon \<Rightarrow> LatLon \<Rightarrow> page \<Rightarrow> thrown option \<times> page" where
  "createAndSetItinerary fromOrderedCoordinates setItinerary_outcome from_pos to_pos s =
     (let origin = Coordinates (lat from_pos) (lon from_pos);
          destination = Coordinates (lat to_pos) (lon to_pos);
          midLat = (lat from_pos + lat to_pos) / 2;
          midLon = (lon from_pos + lon to_pos) / 2;
          cs = [origin,
                Coordinates (midLat + 0.001) (midLon + 0.001),
                Coordinates midLat midLon,
                Coordinates (midLat - 0.001) (midLon - 0.001),
                destination];
          catch = (\<lambda>error s'.
            (None, alert (''Failed to create itinerary: '' @ error_text error) s'))
      in case fromOrderedCoordinates cs origin destination ''WALK'' of
           Inl error \<Rightarrow> catch error s
         | Inr it \<Rightarrow>
             (let s1 = s\<lparr>currentItinerary := Some it\<rparr>
              in case setItinerary_outcome of
                   Inl error \<Rightarrow> catch error s1
                 | Inr _ \<Rightarrow>
                     (let s2 = s1\<lparr>mapMatching_itinerary := Some it\<rparr>;
                          km = (case distance it of
                                  Num d \<Rightarrow>
                                    if d \<noteq> 0 then toFixed 2 (d / 1000) @ '' km'' else ''N/A''
                                | NaN \<Rightarrow> ''N/A'');
                          mins = (case duration it of
                                    Num t \<Rightarrow>
                                      if t \<noteq> 0 then show_int (Math_round (t / 60)) @ '' min''
                                      else ''N/A''
                                  | NaN \<Rightarrow> ''N/A'');
                          s3 = s2\<lparr>itineraryInfo :=
                                    ''Distance: '' @ km @ '', Duration: '' @ mins @
                                    '', Legs: '' @ show_nat (length (legs it))\<rparr>
                      in case updateMapItinerary (updateUI_mm s3) of
                           (Some error, s4) \<Rightarrow> catch error s4
                         | (None, s4) \<Rightarrow> (None, s4))))"

definition createItineraryFromCurrentPosition ::
  "(Coordinates list \<Rightarrow> Coordinates \<Rightarrow> Coordinates \<Rightarrow> string \<Rightarrow> thrown + Itinerary) \<Rightarrow>
   thrown + unit \<Rightarrow> page \<Rightarrow> thrown option \<times> page" where
  "createItineraryFromCurrentPosition fromOrderedCoordinates setItinerary_outcome s =
     (case (case position (gnssPose s) of
              None \<Rightarrow> None
            | Some p \<Rightarrow>
                (case (latitude p, longitude p) of
                   (Some la, Some lo) \<Rightarrow> Some (la, lo)
                 | _ \<Rightarrow> None)) of
        None \<Rightarrow>
          (None, alert (''No GPS position available yet. Please start the GNSS source '' @
                        ''and wait for a position update.'') s)
      | Some (currentLat, currentLon) \<Rightarrow>
          (let offsetLat = 0.0045;
               offsetLon = 0.0045 / cos (currentLat * pi / 180)
           in createAndSetItinerary fromOrderedCoordinates setItinerary_outcome
                \<lparr>lat = currentLat, lon = currentLon\<rparr>
                \<lparr>lat = currentLat + offsetLat, lon = currentLon + offsetLon\<rparr> s))"


section \<open>The combined page (combined-gnss.ts)\<close>

definition updateDestinationInfo :: "page \<Rightarrow> page" where
  "updateDestinationInfo s =
     s\<lparr>combined_rendered := (combined_rendered s)\<lparr>destination_info := destinationCoords s\<rparr>\<rparr>"

definition updateButtonStates :: "page \<Rightarrow> page" where
  "updateButtonStates s =
     s\<lparr>combined_rendered := (combined_rendered s)\<lparr>
          start_gnss_btn_disabled := gnssRunning s,
          start_itinerary_disabled :=
            (\<not> gnssRunning s \<or> destinationCoords s = None \<or> isCalculatingRoute s),
          start_itinerary_text :=
            (if isCalculatingRoute s then ''Calculating...'' else ''Start Itinerary''),
          update_level_disabled := (destinationCoords s = None)\<rparr>\<rparr>"

definition setDestination :: "real \<Rightarrow> real \<Rightarrow> real option \<Rightarrow> page \<Rightarrow> page" where
  "setDestination la lo lvl s =
     (let s1 = s\<lparr>destinationCoords := Some \<lparr>dest_lat = la, dest_lon = lo, dest_level = lvl\<rparr>\<rparr>;
          s2 = (if lvl \<noteq> None then s1\<lparr>destinationLevelInput := lvl\<rparr> else s1);
          s3 = s2\<lparr>destinationMarker :=
                    Some \<lparr>marker_color = ''#dc3545'', marker_lngLat = (lo, la)\<rparr>\<rparr>
      in updateButtonStates (updateDestinationInfo s3))"

text \<open>
  The click handler of the map. \<open>level_input\<close> is \<open>None\<close> for an empty level field and
  what \<open>parseInt\<close> gives for it otherwise. The handler hangs on the map, so a page
  without a map gets no click.
\<close>

definition map_on_click :: "real \<Rightarrow> real \<Rightarrow> jsnum option \<Rightarrow> page \<Rightarrow> page" where
  "map_on_click la lng level_input s =
     (case mapgl s of
        None \<Rightarrow> s
      | Some m \<Rightarrow>
          if \<not> loaded m then s
          else if \<not> gnssRunning s
          then alert ''Please start GNSS Location Source first'' s
          else if \<not> has_latitude (gnssPose s)
          then alert (''Waiting for GNSS position. Please wait for location '' @
                      ''to be acquired.'') s
          else setDestination la lng
                 (case level_input of Some (Num n) \<Rightarrow> Some n | _ \<Rightarrow> None) s)"

section \<open>Sequences of events on the MapMatching page\<close>









section \<open>States used in the properties\<close>

text \<open>
  The route line of the routing page is tracked by \<open>routeSourceId\<close>: it is unset or
  names the source \<open>route-source\<close>; a layer \<open>route\<close> on the map comes with that source,
  and the source on the map comes with the variable set.
\<close>

definition route_inv :: "page \<Rightarrow> bool" where
  "route_inv s =
     ((routeSourceId s = None \<or> routeSourceId s = Some ''route-source'') \<and>
      (case mapgl s of
         None \<Rightarrow> True
       | Some m \<Rightarrow>
           (getLayer ''route'' m \<longrightarrow> getSource ''route-source'' m) \<and>
           (getSource ''route-source'' m \<longrightarrow> routeSourceId s = Some ''route-source'')))"



definition sample_itinerary :: Itinerary where
  "sample_itinerary =
     \<lparr>coords = [Coordinates 48 2, Coordinates 49 3], distance = Num 1234,
      duration = Num 125, legs = []\<rparr>"

definition map_not_loaded_page :: page where
  "map_not_loaded_page =
     initial_page\<lparr>mapgl := Some \<lparr>loaded = False, sources = [], layers = []\<rparr>,
                  gnssRunning := True\<rparr>"

definition map_loaded_page :: page where
  "map_loaded_page =
     initial_page\<lparr>mapgl := Some \<lparr>loaded = True, sources = [], layers = []\<rparr>,
                  gnssRunning := True\<rparr>"


definition origin_pose :: Pose where
  "origin_pose =
     \<lparr>position = Some \<lparr>latitude = Some 0, longitude = Some 0, altitude = None, level = None\<rparr>,
      attitude = None, accuracy = None\<rparr>"

definition no_info :: "ItineraryInfoManager \<Rightarrow> Coordinates \<Rightarrow> thrown + ItineraryInfo option" where
  "no_info manager p = Inr None"


definition route_drawn_events :: "routing_event list" where
  "route_drawn_events =
     [MapCreated, MapLoadFired, InitRouterClicked (Inr ()), SetAsOrigin 48 2,
      SetAsDestination 49 3, DirectionsSettled 0 (Inr [sample_itinerary])]"

section \<open>Properties\<close>

subsection \<open>Auxiliary facts\<close>

lemma resume_failure:
  "calculateRoute_resume getInfo (Inl e) s =
     (None, updateUI_routing
              ((updateUI_routing (s\<lparr>routeError := Some (error_text e)\<rparr>))
                 \<lparr>isCalculating := False\<rparr>))"
  by (simp add: calculateRoute_resume_def)

lemma currentItinerary_updateMapRoute [simp]:
  "currentItinerary (updateMapRoute s) = currentItinerary s"
  by (simp add: updateMapRoute_def Let_def split: option.splits)

lemma currentItinerary_updateMapTestPosition [simp]:
  "currentItinerary (updateMapTestPosition s) = currentItinerary s"
  by (simp add: updateMapTestPosition_def split: option.splits)

lemma currentItinerary_updateNavigationInfo [simp]:
  "currentItinerary (updateNavigationInfo g s) = currentItinerary s"
  by (simp add: updateNavigationInfo_def split: option.splits sum.splits)

lemma currentItinerary_updateUI_routing [simp]:
  "currentItinerary (updateUI_routing s) = currentItinerary s"
  by (simp add: updateUI_routing_def)

lemma route_inv_frame:
  "mapgl s' = mapgl s \<Longrightarrow> routeSourceId s' = routeSourceId s \<Longrightarrow> route_inv s' = route_inv s"
  by (cases "mapgl s") (simp_all add: route_inv_def)

lemma route_inv_loaded:
  "mapgl s = Some m \<Longrightarrow> route_inv (s\<lparr>mapgl := Some (m\<lparr>loaded := b\<rparr>)\<rparr>) = route_inv s"
  by (simp add: route_inv_def getLayer_def getSource_def)

lemma frame_updateUI_routing [simp]:
  "mapgl (updateUI_routing s) = mapgl s" "routeSourceId (updateUI_routing s) = routeSourceId s"
  "directions_pending (updateUI_routing s) = directions_pending s"
  by (simp_all add: updateUI_routing_def)

lemma frame_updateMapTestPosition [simp]:
  "mapgl (updateMapTestPosition s) = mapgl s"
  "routeSourceId (updateMapTestPosition s) = routeSourceId s"
  "directions_pending (updateMapTestPosition s) = directions_pending s"
  by (simp_all add: updateMapTestPosition_def split: option.splits)

lemma frame_updateNavigationInfo [simp]:
  "mapgl (updateNavigationInfo g s) = mapgl s"
  "routeSourceId (updateNavigationInfo g s) = routeSourceId s"
  "directions_pending (updateNavigationInfo g s) = directions_pending s"
  by (simp_all add: updateNavigationInfo_def split: option.splits sum.splits)

lemma frame_updateOriginMarker [simp]:
  "mapgl (updateOriginMarker a b s) = mapgl s"
  "routeSourceId (updateOriginMarker a b s) = routeSourceId s"
  "directions_pending (updateOriginMarker a b s) = directions_pending s"
  "currentItinerary (updateOriginMarker a b s) = currentItinerary s"
  by (simp_all add: updateOriginMarker_def split: option.splits)

lemma frame_updateDestinationMarker [simp]:
  "mapgl (updateDestinationMarker a b s) = mapgl s"
  "routeSourceId (updateDestinationMarker a b s) = routeSourceId s"
  "directions_pending (updateDestinationMarker a b s) = directions_pending s"
  "currentItinerary (updateDestinationMarker a b s) = currentItinerary s"
  by (simp_all add: updateDestinationMarker_def split: option.splits)

lemma directions_pending_updateMapRoute [simp]:
  "directions_pending (updateMapRoute s) = directions_pending s"
  by (simp add: updateMapRoute_def Let_def split: option.splits)

lemma frame_calculateRoute_begin [simp]:
  "mapgl (calculateRoute_begin a b s) = mapgl s"
  "routeSourceId (calculateRoute_begin a b s) = routeSourceId s"
  "currentItinerary (calculateRoute_begin a b s) = currentItinerary s"
  by (simp_all add: calculateRoute_begin_def Let_def)


lemma route_inv_updateMapRoute: "route_inv s \<Longrightarrow> route_inv (updateMapRoute s)"
  by (auto simp add: route_inv_def updateMapRoute_def remove_route_def getLayer_def
      getSource_def removeLayer_def removeSource_def addSource_def addLayer_def Let_def
      split: option.splits if_splits)

lemma updateMapRoute_cleared:
  assumes "route_inv s" and "currentItinerary s = None"
  shows "case mapgl (updateMapRoute s) of
           None \<Rightarrow> True
         | Some m \<Rightarrow> \<not> getLayer ''route'' m \<and> \<not> getSource ''route-source'' m"
  using assms
  by (auto simp add: route_inv_def updateMapRoute_def remove_route_def getLayer_def
      getSource_def removeLayer_def removeSource_def Let_def
      split: option.splits if_splits)

lemma route_inv_initial: "route_inv initial_page"
  by (simp add: route_inv_def initial_page_def)

lemma route_inv_updateUI_routing [simp]: "route_inv (updateUI_routing s) = route_inv s"
  by (rule route_inv_frame) simp_all

lemma route_inv_updateMapTestPosition [simp]: "route_inv (updateMapTestPosition s) = route_inv s"
  by (rule route_inv_frame) simp_all

lemma route_inv_updateNavigationInfo [simp]: "route_inv (updateNavigationInfo g s) = route_inv s"
  by (rule route_inv_frame) simp_all

lemma route_inv_updateOriginMarker [simp]: "route_inv (updateOriginMarker a b s) = route_inv s"
  by (rule route_inv_frame) simp_all

lemma route_inv_updateDestinationMarker [simp]:
  "route_inv (updateDestinationMarker a b s) = route_inv s"
  by (rule route_inv_frame) simp_all

lemma route_inv_calculateRoute_begin [simp]:
  "route_inv (calculateRoute_begin a b s) = route_inv s"
  by (rule route_inv_frame) simp_all

lemma route_inv_calculateRoute_resume:
  "route_inv s \<Longrightarrow> route_inv (snd (calculateRoute_resume g outcome s))"
proof (cases outcome)
  case (Inl e)
  assume "route_inv s"
  moreover have "route_inv (snd (calculateRoute_resume g (Inl e) s)) = route_inv s"
    by (rule route_inv_frame) (simp_all add: resume_failure)
  ultimately show ?thesis using Inl by simp
next
  case (Inr its)
  assume inv: "route_inv s"
  define s3 where "s3 =
    (if testPosition s \<noteq> None
     then updateNavigationInfo g (s\<lparr>currentItinerary := first_itinerary its,
            itineraryInfoManager := Some \<lparr>manager_itinerary = first_itinerary its\<rparr>\<rparr>)
     else s\<lparr>currentItinerary := first_itinerary its,
            itineraryInfoManager := Some \<lparr>manager_itinerary = first_itinerary its\<rparr>\<rparr>)"
  have "route_inv s3 = route_inv s"
    by (rule route_inv_frame) (simp_all add: s3_def)
  with inv have "route_inv (updateMapRoute (updateUI_routing s3))"
    by (simp add: route_inv_updateMapRoute)
  moreover have "route_inv (snd (calculateRoute_resume g (Inr its) s))
                   = route_inv (updateMapRoute (updateUI_routing s3))"
    by (rule route_inv_frame) (simp_all add: calculateRoute_resume_def s3_def Let_def)
  ultimately show ?thesis using Inr by simp
qed

lemma route_inv_handleClearRoute: "route_inv s \<Longrightarrow> route_inv (handleClearRoute s)"
proof -
  assume inv: "route_inv s"
  define s2 where "s2 = s\<lparr>currentItinerary := None, testPosition := None, navigationInfo := None,
                 routeError := None, originPosition := None, destinationPosition := None,
                 itineraryInfoManager := None, originMarker := None, destinationMarker := None,
                  testPositionMarker := None\<rparr>"
  have "route_inv s2 = route_inv s" by (rule route_inv_frame) (simp_all add: s2_def)
  with inv have "route_inv (updateMapRoute (updateUI_routing s2))"
    by (simp add: route_inv_updateMapRoute)
  moreover have "handleClearRoute s = updateMapTestPosition (updateMapRoute (updateUI_routing s2))"
    by (simp add: handleClearRoute_def s2_def Let_def)
  ultimately show ?thesis by simp
qed

lemma route_inv_initializeMap: "route_inv s \<Longrightarrow> route_inv (initializeMap s)"
  by (auto simp add: route_inv_def initializeMap_def getLayer_def getSource_def
      split: option.splits)

lemma route_inv_map_on_load: "route_inv s \<Longrightarrow> route_inv (map_on_load s)"
  by (simp add: map_on_load_def Let_def route_inv_updateMapRoute split: option.splits)

lemma route_inv_step: "route_inv s \<Longrightarrow> route_inv (routing_step g ev s)"
proof (cases ev)
  case (InitRouterClicked outcome)
  assume "route_inv s"
  moreover have "route_inv (initializeRouter outcome s) = route_inv s"
    by (rule route_inv_frame) (simp_all add: initializeRouter_def split: sum.splits)
  ultimately show ?thesis using InitRouterClicked by simp
next
  case CalculateRouteClicked
  assume "route_inv s"
  then show ?thesis using CalculateRouteClicked
    by (simp add: calculate_route_onclick_def split: option.splits)
next
  case (SetAsOrigin a b)
  assume "route_inv s"
  moreover have "route_inv (set_as_origin a b s) = route_inv s"
    by (rule route_inv_frame) (simp_all add: set_as_origin_def)
  ultimately show ?thesis using SetAsOrigin by simp
next
  case (SetAsDestination a b)
  assume "route_inv s"
  moreover have "route_inv (set_as_destination a b s) = route_inv s"
    by (rule route_inv_frame) (simp_all add: set_as_destination_def Let_def split: option.splits)
  ultimately show ?thesis using SetAsDestination by simp
next
  case (SetAsTestPosition a b)
  assume "route_inv s"
  moreover have "route_inv (set_as_test_position g a b s) = route_inv s"
    by (rule route_inv_frame) (simp_all add: set_as_test_position_def)
  ultimately show ?thesis using SetAsTestPosition by simp
next
  case ClearRouteClicked
  assume "route_inv s"
  then show ?thesis using ClearRouteClicked by (simp add: route_inv_handleClearRoute)
next
  case MapCreated
  assume "route_inv s"
  then show ?thesis using MapCreated by (simp add: route_inv_initializeMap)
next
  case MapLoadFired
  assume "route_inv s"
  then show ?thesis using MapLoadFired
    by (auto simp add: route_inv_map_on_load route_inv_loaded split: option.splits)
next
  case (MapLoadedReports b)
  assume "route_inv s"
  then show ?thesis using MapLoadedReports
    by (auto simp add: route_inv_loaded split: option.splits)
next
  case (DirectionsSettled i outcome)
  assume inv: "route_inv s"
  have "route_inv (s\<lparr>directions_pending := drop_nth i (directions_pending s)\<rparr>) = route_inv s"
    by (rule route_inv_frame) simp_all
  with inv show ?thesis using DirectionsSettled
    by (simp add: route_inv_calculateRoute_resume)
qed

lemma route_inv_run: "route_inv s \<Longrightarrow> route_inv (routing_run g evs s)"
  by (induction evs arbitrary: s) (simp_all add: route_inv_step)

lemma frame_updateMapRoute_view [simp]:
  "navigationInfo (updateMapRoute s) = navigationInfo s"
  "routing_rendered (updateMapRoute s) = routing_rendered s"
  by (simp_all add: updateMapRoute_def Let_def split: option.splits)

lemma frame_updateMapTestPosition_view [simp]:
  "navigationInfo (updateMapTestPosition s) = navigationInfo s"
  "routing_rendered (updateMapTestPosition s) = routing_rendered s"
  by (simp_all add: updateMapTestPosition_def split: option.splits)


lemma pending_resume [simp]:
  "directions_pending (snd (calculateRoute_resume g outcome s)) = directions_pending s"
  by (cases outcome) (simp_all add: calculateRoute_resume_def Let_def)

lemma frame_scan [simp]:
  "scans_pending (updateUI_vps s) = scans_pending s"
  "stopScan_calls (updateUI_vps s) = stopScan_calls s"
  "isScanning (updateUI_vps s) = isScanning s"
  "scans_pending (stopCamera c s) = scans_pending s"
  "stopScan_calls (stopCamera c s) = stopScan_calls s"
  "isScanning (stopCamera c s) = isScanning s"
  "scans_pending (alert m s) = scans_pending s"
  "stopScan_calls (alert m s) = stopScan_calls s"
  "isScanning (alert m s) = isScanning s"
  by (simp_all add: updateUI_vps_def stopCamera_def alert_def split: option.splits sum.splits)


lemma frame_updateUI_mm [simp]:
  "gnssPose (updateUI_mm s) = gnssPose s"
  "currentItinerary (updateUI_mm s) = currentItinerary s"
  "mapMatching_itinerary (updateUI_mm s) = mapMatching_itinerary s"
  by (simp_all add: updateUI_mm_def)

lemma frame_updateMapUserPosition_mm [simp]:
  "gnssPose (updateMapUserPosition_mm s) = gnssPose s"
  "currentItinerary (updateMapUserPosition_mm s) = currentItinerary s"
  by (simp_all add: updateMapUserPosition_mm_def Let_def split: option.splits)

lemma frame_updateMapItinerary [simp]:
  "gnssPose (snd (updateMapItinerary s)) = gnssPose s"
  "currentItinerary (snd (updateMapItinerary s)) = currentItinerary s"
  "mapMatching_itinerary (snd (updateMapItinerary s)) = mapMatching_itinerary s"
  by (simp_all add: updateMapItinerary_def Let_def split: option.splits)

lemma frame_alert [simp]:
  "gnssPose (alert m s) = gnssPose s"
  "currentItinerary (alert m s) = currentItinerary s"
  "mapMatching_itinerary (alert m s) = mapMatching_itinerary s"
  by (simp_all add: alert_def)

lemma createAndSetItinerary_cases:
  "snd (createAndSetItinerary f so a b s) =
     (case f [Coordinates (lat a) (lon a),
              Coordinates ((lat a + lat b) / 2 + 0.001) ((lon a + lon b) / 2 + 0.001),
              Coordinates ((lat a + lat b) / 2) ((lon a + lon b) / 2),
              Coordinates ((lat a + lat b) / 2 - 0.001) ((lon a + lon b) / 2 - 0.001),
              Coordinates (lat b) (lon b)]
             (Coordinates (lat a) (lon a)) (Coordinates (lat b) (lon b)) ''WALK'' of
        Inl e \<Rightarrow> alert (''Failed to create itinerary: '' @ error_text e) s
      | Inr it \<Rightarrow> snd (createAndSetItinerary (\<lambda>cs x y m. Inr it) so a b s))"
  by (simp add: createAndSetItinerary_def Let_def split: sum.splits)

lemma snd_case_catch:
  "snd (case r of (None, s4) \<Rightarrow> (None, s4) | (Some e, s4) \<Rightarrow> (None, alert (msg e) s4))
     = (case fst r of None \<Rightarrow> snd r | Some e \<Rightarrow> alert (msg e) (snd r))"
  by (cases r; cases "fst r"; simp)

lemma createAndSetItinerary_success:
  "gnssPose (snd (createAndSetItinerary (\<lambda>cs x y m. Inr it) so a b s)) = gnssPose s"
  "currentItinerary (snd (createAndSetItinerary (\<lambda>cs x y m. Inr it) so a b s)) = Some it"
  "mapMatching_itinerary (snd (createAndSetItinerary (\<lambda>cs x y m. Inr it) (Inr ()) a b s))
     = Some it"
proof -
  show "gnssPose (snd (createAndSetItinerary (\<lambda>cs x y m. Inr it) so a b s)) = gnssPose s"
    by (cases so)
       (simp_all add: createAndSetItinerary_def Let_def snd_case_catch split: option.splits)
  show "currentItinerary (snd (createAndSetItinerary (\<lambda>cs x y m. Inr it) so a b s)) = Some it"
    by (cases so)
       (simp_all add: createAndSetItinerary_def Let_def snd_case_catch split: option.splits)
  show "mapMatching_itinerary (snd (createAndSetItinerary (\<lambda>cs x y m. Inr it) (Inr ()) a b s))
     = Some it"
    by (simp add: createAndSetItinerary_def Let_def snd_case_catch split: option.splits)
qed

lemma gnssPose_createAndSetItinerary [simp]:
  "gnssPose (snd (createAndSetItinerary f so a b s)) = gnssPose s"
  by (simp add: createAndSetItinerary_cases [of f] createAndSetItinerary_success
      split: sum.splits)






lemma createItinerary_with_position:
  assumes "position (gnssPose s) = Some p" "latitude p = Some la" "longitude p = Some lo"
  shows "createItineraryFromCurrentPosition f so s =
           createAndSetItinerary f so \<lparr>lat = la, lon = lo\<rparr>
             \<lparr>lat = la + 0.0045, lon = lo + 0.0045 / cos (la * pi / 180)\<rparr> s"
  using assms by (simp add: createItineraryFromCurrentPosition_def Let_def)

lemma createItinerary_without_position:
  assumes "\<not> has_lat_lon (gnssPose s)"
  shows "createItineraryFromCurrentPosition f so s =
           (None, alert (''No GPS position available yet. Please start the GNSS source '' @
                         ''and wait for a position update.'') s)"
  using assms
  by (auto simp add: createItineraryFromCurrentPosition_def has_lat_lon_def
      split: option.splits)

lemma fst_createAndSetItinerary [simp]: "fst (createAndSetItinerary f so a b s) = None"
  by (simp add: createAndSetItinerary_def Let_def split: sum.splits prod.splits option.splits)

lemmas routing_eval_defs =
  initializeMap_def map_on_load_def map_loaded_def initializeRouter_def set_as_origin_def
  set_as_destination_def updateOriginMarker_def updateDestinationMarker_def
  calculateRoute_begin_def calculateRoute_resume_def updateUI_routing_def updateMapRoute_def
  updateMapTestPosition_def updateNavigationInfo_def renderItineraryInfo_def
  renderNavigationInfo_def first_itinerary_def drop_nth_def remove_route_def getSource_def
  getLayer_def addSource_def addLayer_def removeSource_def removeLayer_def
  sample_itinerary_def initial_page_def Let_def

lemma route_drawn:
  "mapgl (routing_run no_info route_drawn_events initial_page)
     = Some \<lparr>loaded = True, sources = [''route-source''], layers = [''route'']\<rparr> \<and>
   currentItinerary (routing_run no_info route_drawn_events initial_page)
     = Some sample_itinerary \<and>
   routeSourceId (routing_run no_info route_drawn_events initial_page) = Some ''route-source''"
  by (simp add: route_drawn_events_def routing_eval_defs)

subsection \<open>Failures of SDK calls\<close>



subsection \<open>One pose and one itinerary\<close>


subsection \<open>Operations in flight\<close>




subsection \<open>Validation of the route form\<close>

text \<open>
  C4: when one of the four coordinate inputs parses to \<open>NaN\<close>, the submit handler makes
  no call to the router (no call becomes pending), shows the validation alert, and
  leaves the page state as it was: the alert is the only change.
\<close>

theorem calculate_route_nan_blocked:
  assumes "isNaN from_lat \<or> isNaN from_lon \<or> isNaN to_lat \<or> isNaN to_lon"
  shows "handleCalculateRoute from_lat from_lon to_lat to_lon s
           = s\<lparr>alerts := alerts s @ [''Please enter valid coordinates'']\<rparr> \<and>
         directions_pending (handleCalculateRoute from_lat from_lon to_lat to_lon s)
           = directions_pending s \<and>
         currentItinerary (handleCalculateRoute from_lat from_lon to_lat to_lon s)
           = currentItinerary s \<and>
         routeError (handleCalculateRoute from_lat from_lon to_lat to_lon s) = routeError s"
  using assms by (simp add: handleCalculateRoute_def alert_def)

theorem calculate_route_nan_blocked_witness:
  "(isNaN NaN \<or> isNaN (Num 2) \<or> isNaN (Num 48) \<or> isNaN (Num 2)) \<and>
   handleCalculateRoute NaN (Num 2) (Num 48) (Num 2) initial_page
     = initial_page\<lparr>alerts := [''Please enter valid coordinates'']\<rparr> \<and>
   directions_pending (handleCalculateRoute NaN (Num 2) (Num 48) (Num 2) initial_page) = []"
  using calculate_route_nan_blocked [of NaN "Num 2" "Num 48" "Num 2" initial_page]
  by (simp add: initial_page_def)

subsection \<open>Rendered distance and duration\<close>




subsection \<open>Clearing the route\<close>

text \<open>
  C6: in every state that the routing page can reach from its initial state, the clear
  handler leaves the map (if there is one) without the layer \<open>route\<close> and without the
  source \<open>route-source\<close>, leaves no current itinerary and no navigation information, and
  renders the placeholder in the navigation information container.
\<close>

theorem clear_removes_route:
  "(case mapgl (handleClearRoute (routing_run getInfo evs initial_page)) of
      None \<Rightarrow> True
    | Some m \<Rightarrow> \<not> getLayer ''route'' m \<and> \<not> getSource ''route-source'' m) \<and>
   currentItinerary (handleClearRoute (routing_run getInfo evs initial_page)) = None \<and>
   navigationInfo (handleClearRoute (routing_run getInfo evs initial_page)) = None \<and>
   map_option navigation_info_container
     (routing_rendered (handleClearRoute (routing_run getInfo evs initial_page)))
     = Some NavigationPlaceholder"
proof -
  define s where "s = routing_run getInfo evs initial_page"
  define s2 where "s2 = s\<lparr>currentItinerary := None, testPosition := None, navigationInfo := None,
                 routeError := None, originPosition := None, destinationPosition := None,
                 itineraryInfoManager := None, originMarker := None, destinationMarker := None,
                  testPositionMarker := None\<rparr>"
  have inv: "route_inv s" unfolding s_def by (rule route_inv_run) (rule route_inv_initial)
  have "route_inv s2 = route_inv s" by (rule route_inv_frame) (simp_all add: s2_def)
  with inv have inv2: "route_inv (updateUI_routing s2)" by simp
  have none: "currentItinerary (updateUI_routing s2) = None" by (simp add: s2_def)
  have eq: "handleClearRoute s = updateMapTestPosition (updateMapRoute (updateUI_routing s2))"
    by (simp add: handleClearRoute_def s2_def Let_def)
  have m: "case mapgl (handleClearRoute s) of
      None \<Rightarrow> True
    | Some m \<Rightarrow> \<not> getLayer ''route'' m \<and> \<not> getSource ''route-source'' m"
    using updateMapRoute_cleared [OF inv2 none] by (simp add: eq)
  have c: "currentItinerary (handleClearRoute s) = None"
    by (simp add: eq s2_def)
  have n: "navigationInfo (handleClearRoute s) = None"
    by (simp add: eq s2_def updateUI_routing_def)
  have r: "map_option navigation_info_container (routing_rendered (handleClearRoute s))
     = Some NavigationPlaceholder"
    by (simp add: eq s2_def updateUI_routing_def renderNavigationInfo_def)
  from m c n r show ?thesis unfolding s_def by simp
qed

theorem clear_removes_route_example:
  "mapgl (routing_run no_info route_drawn_events initial_page)
     = Some \<lparr>loaded = True, sources = [''route-source''], layers = [''route'']\<rparr> \<and>
   mapgl (handleClearRoute (routing_run no_info route_drawn_events initial_page))
     = Some \<lparr>loaded = True, sources = [], layers = []\<rparr>"
proof -
  obtain s where s: "s = routing_run no_info route_drawn_events initial_page" by simp
  have d: "mapgl s = Some \<lparr>loaded = True, sources = [''route-source''], layers = [''route'']\<rparr>"
      "routeSourceId s = Some ''route-source''"
    using route_drawn by (simp_all add: s)
  have "mapgl (handleClearRoute s) = Some \<lparr>loaded = True, sources = [], layers = []\<rparr>"
    using d
    by (simp add: handleClearRoute_def Let_def updateMapRoute_def remove_route_def
        getSource_def getLayer_def removeSource_def removeLayer_def)
  with d clear_removes_route [of no_info route_drawn_events] show ?thesis by (simp add: s)
qed

subsection \<open>Clicks on the map without a position\<close>

text \<open>
  C7, as stated, fails: the claim says that every click on the map made before the
  location source has produced a position shows an alert. While the map reports that it
  is not loaded, the click handler returns without any alert.
\<close>

theorem click_on_unloaded_map_shows_no_alert:
  "\<not> has_latitude (gnssPose map_not_loaded_page) \<and>
   alerts (map_on_click 48 2 None map_not_loaded_page) = []"
  by (simp add: map_on_click_def map_not_loaded_page_def initial_page_def has_latitude_def
      empty_pose_def)

text \<open>
  C7, amended: a click on the map made while the pose has no position with a latitude
  never sets a destination: the destination coordinates and the destination marker stay
  as they were. An alert is shown exactly when the map reports that it is loaded: the
  request to start the source if it is not running, the request to wait for a position
  otherwise. On a map that is not loaded the handler changes nothing at all.
\<close>

theorem click_without_position:
  assumes "mapgl s = Some m" and "\<not> has_latitude (gnssPose s)"
  shows "map_on_click la lng level_input s =
           (if \<not> loaded m then s
            else if \<not> gnssRunning s then alert ''Please start GNSS Location Source first'' s
            else alert (''Waiting for GNSS position. Please wait for location '' @
                        ''to be acquired.'') s) \<and>
         destinationCoords (map_on_click la lng level_input s) = destinationCoords s \<and>
         destinationMarker (map_on_click la lng level_input s) = destinationMarker s \<and>
         (alerts (map_on_click la lng level_input s) \<noteq> alerts s) = loaded m"
  using assms by (simp add: map_on_click_def alert_def)

theorem click_without_position_witness:
  "mapgl map_loaded_page = Some \<lparr>loaded = True, sources = [], layers = []\<rparr> \<and>
   \<not> has_latitude (gnssPose map_loaded_page) \<and>
   alerts (map_on_click 48 2 None map_loaded_page)
     = [''Waiting for GNSS position. Please wait for location to be acquired.''] \<and>
   destinationCoords (map_on_click 48 2 None map_loaded_page) = None"
proof -
  have m: "mapgl map_loaded_page = Some \<lparr>loaded = True, sources = [], layers = []\<rparr>"
    by (simp add: map_loaded_page_def initial_page_def)
  have p: "\<not> has_latitude (gnssPose map_loaded_page)"
    by (simp add: map_loaded_page_def initial_page_def has_latitude_def empty_pose_def)
  show ?thesis
    using click_without_position [OF m p, of 48 2 None] m p
    by (simp add: map_loaded_page_def initial_page_def alert_def)
qed

subsection \<open>Start and stop of the location source\<close>

text \<open>
  C8: after a start of the location source (whatever its outcome) and a stop whose SDK
  call succeeds, the page is in the stopped display state: the running flag is false,
  the status text is the stopped indicator (which differs from the running one), the
  stop button is rendered disabled and the start button enabled.
\<close>

theorem start_then_stop_shows_stopped:
  "fst (handleStopGnss (Inr ()) (snd (handleStartGnss start_outcome s))) = None \<and>
   gnssRunning (snd (handleStopGnss (Inr ()) (snd (handleStartGnss start_outcome s)))) = False \<and>
   map_option gnss_status_text
     (gnss_rendered (snd (handleStopGnss (Inr ()) (snd (handleStartGnss start_outcome s)))))
     = Some (WHITE_CIRCLE @ '' Stopped'') \<and>
   map_option stop_gnss_disabled
     (gnss_rendered (snd (handleStopGnss (Inr ()) (snd (handleStartGnss start_outcome s)))))
     = Some True \<and>
   map_option start_gnss_disabled
     (gnss_rendered (snd (handleStopGnss (Inr ()) (snd (handleStartGnss start_outcome s)))))
     = Some False \<and>
   WHITE_CIRCLE @ '' Stopped'' \<noteq> BLACK_CIRCLE @ '' Running''"
  by (simp add: handleStopGnss_def updateUI_gnss_def WHITE_CIRCLE_def BLACK_CIRCLE_def)

subsection \<open>A failing route calculation\<close>

text \<open>
  C9: when the call to \<open>router.directions\<close> throws, the continuation of
  \<open>calculateRoute\<close> leaves the current itinerary as it was, stores the message of the
  error, and resets the calculating flag; nothing is thrown on, and the map and the
  rendered route information still show the earlier itinerary. Only the continuation
  of a successful call assigns the current itinerary (the first itinerary returned);
  the part before the call does not touch it. The same holds for the whole of
  \<open>calculateRoute\<close> run without interruption, where a missing router is reported instead.
\<close>

theorem route_failure_keeps_itinerary:
  "fst (calculateRoute_resume getInfo (Inl e) s) = None \<and>
   currentItinerary (snd (calculateRoute_resume getInfo (Inl e) s)) = currentItinerary s \<and>
   routeError (snd (calculateRoute_resume getInfo (Inl e) s)) = Some (error_text e) \<and>
   isCalculating (snd (calculateRoute_resume getInfo (Inl e) s)) = False \<and>
   mapgl (snd (calculateRoute_resume getInfo (Inl e) s)) = mapgl s \<and>
   map_option itinerary_info_container
       (routing_rendered (snd (calculateRoute_resume getInfo (Inl e) s)))
     = Some (renderItineraryInfo s) \<and>
   currentItinerary (snd (calculateRoute_resume getInfo (Inr its) s)) = first_itinerary its \<and>
   isCalculating (snd (calculateRoute_resume getInfo (Inr its) s)) = False \<and>
   currentItinerary (calculateRoute_begin a b s) = currentItinerary s \<and>
   currentItinerary (snd (calculateRoute getInfo (Inl e) a b s)) = currentItinerary s \<and>
   routeError (snd (calculateRoute getInfo (Inl e) a b s))
     = Some (if router s = None then ''Router not initialized'' else error_text e) \<and>
   isCalculating (snd (calculateRoute getInfo (Inl e) a b s))
     = (if router s = None then isCalculating s else False)"
proof -
  have succ: "currentItinerary (snd (calculateRoute_resume getInfo (Inr its) s))
                = first_itinerary its"
    by (simp add: calculateRoute_resume_def Let_def)
  have succ2: "isCalculating (snd (calculateRoute_resume getInfo (Inr its) s)) = False"
    by (simp add: calculateRoute_resume_def Let_def updateUI_routing_def)
  have beg: "currentItinerary (calculateRoute_begin a b s) = currentItinerary s"
    by (simp add: calculateRoute_begin_def Let_def)
  have whole: "currentItinerary (snd (calculateRoute getInfo (Inl e) a b s)) = currentItinerary s"
    by (simp add: calculateRoute_def resume_failure beg Let_def)
  have whole2: "routeError (snd (calculateRoute getInfo (Inl e) a b s))
     = Some (if router s = None then ''Router not initialized'' else error_text e)"
    by (simp add: calculateRoute_def resume_failure calculateRoute_begin_def
        updateUI_routing_def Let_def)
  have whole3: "isCalculating (snd (calculateRoute getInfo (Inl e) a b s))
     = (if router s = None then isCalculating s else False)"
    by (simp add: calculateRoute_def resume_failure calculateRoute_begin_def
        updateUI_routing_def Let_def)
  show ?thesis
    using succ succ2 beg whole whole2 whole3
    by (simp add: resume_failure updateUI_routing_def renderItineraryInfo_def)
qed

subsection \<open>An itinerary from the current position\<close>

text \<open>
  C10: with a current position of latitude \<open>la\<close> and longitude \<open>lo\<close> (the statement is
  for latitudes whose cosine is not zero, where the quotient is the real one), the
  handler passes to the SDK constructor a list of exactly five coordinates, the first
  \<open>(la, lo)\<close> and the last \<open>(la + 0.0045, lo + 0.0045 / cos (la * pi / 180))\<close>, with
  these two as origin and destination and the mode WALK. The itinerary that the
  constructor returns becomes the current itinerary and, when \<open>setItinerary\<close> does not
  throw, the active itinerary of map matching; a failure of the constructor is shown in
  an alert and changes nothing else. Nothing is thrown on. Without a position with
  both keys the handler shows an alert and changes nothing else.
\<close>

theorem itinerary_from_current_position:
  "(position (gnssPose s) = Some p \<and> latitude p = Some la \<and> longitude p = Some lo \<and>
    cos (la * pi / 180) \<noteq> 0 \<longrightarrow>
      (let to_lat = la + 0.0045;
           to_lon = lo + 0.0045 / cos (la * pi / 180);
           mid_lat = (la + to_lat) / 2;
           mid_lon = (lo + to_lon) / 2;
           cs = [Coordinates la lo,
                 Coordinates (mid_lat + 0.001) (mid_lon + 0.001),
                 Coordinates mid_lat mid_lon,
                 Coordinates (mid_lat - 0.001) (mid_lon - 0.001),
                 Coordinates to_lat to_lon];
           r = createItineraryFromCurrentPosition fromOrderedCoordinates setItinerary_outcome s
       in length cs = 5 \<and> hd cs = Coordinates la lo \<and>
          last cs = Coordinates (la + 0.0045) (lo + 0.0045 / cos (la * pi / 180)) \<and>
          fst r = None \<and>
          (case fromOrderedCoordinates cs (hd cs) (last cs) ''WALK'' of
             Inr it \<Rightarrow>
               currentItinerary (snd r) = Some it \<and>
               (setItinerary_outcome = Inr () \<longrightarrow> mapMatching_itinerary (snd r) = Some it)
           | Inl e \<Rightarrow>
               snd r = alert (''Failed to create itinerary: '' @ error_text e) s))) \<and>
   (\<not> has_lat_lon (gnssPose s) \<longrightarrow>
      createItineraryFromCurrentPosition fromOrderedCoordinates setItinerary_outcome s =
        (None, alert (''No GPS position available yet. Please start the GNSS source '' @
                      ''and wait for a position update.'') s))"
proof (intro conjI impI)
  assume "\<not> has_lat_lon (gnssPose s)"
  then show "createItineraryFromCurrentPosition fromOrderedCoordinates setItinerary_outcome s =
        (None, alert (''No GPS position available yet. Please start the GNSS source '' @
                      ''and wait for a position update.'') s)"
    by (rule createItinerary_without_position)
next
  assume h: "position (gnssPose s) = Some p \<and> latitude p = Some la \<and> longitude p = Some lo \<and>
    cos (la * pi / 180) \<noteq> 0"
  then have eq: "createItineraryFromCurrentPosition fromOrderedCoordinates setItinerary_outcome s =
           createAndSetItinerary fromOrderedCoordinates setItinerary_outcome \<lparr>lat = la, lon = lo\<rparr>
             \<lparr>lat = la + 0.0045, lon = lo + 0.0045 / cos (la * pi / 180)\<rparr> s"
    by (simp add: createItinerary_with_position)
  show "let to_lat = la + 0.0045;
           to_lon = lo + 0.0045 / cos (la * pi / 180);
           mid_lat = (la + to_lat) / 2;
           mid_lon = (lo + to_lon) / 2;
           cs = [Coordinates la lo,
                 Coordinates (mid_lat + 0.001) (mid_lon + 0.001),
                 Coordinates mid_lat mid_lon,
                 Coordinates (mid_lat - 0.001) (mid_lon - 0.001),
                 Coordinates to_lat to_lon];
           r = createItineraryFromCurrentPosition fromOrderedCoordinates setItinerary_outcome s
       in length cs = 5 \<and> hd cs = Coordinates la lo \<and>
          last cs = Coordinates (la + 0.0045) (lo + 0.0045 / cos (la * pi / 180)) \<and>
          fst r = None \<and>
          (case fromOrderedCoordinates cs (hd cs) (last cs) ''WALK'' of
             Inr it \<Rightarrow>
               currentItinerary (snd r) = Some it \<and>
               (setItinerary_outcome = Inr () \<longrightarrow> mapMatching_itinerary (snd r) = Some it)
           | Inl e \<Rightarrow>
               snd r = alert (''Failed to create itinerary: '' @ error_text e) s)"
    unfolding eq Let_def
    by (simp add: createAndSetItinerary_cases [of fromOrderedCoordinates]
        createAndSetItinerary_success split: sum.splits)
qed

theorem itinerary_from_current_position_witness:
  "position (gnssPose (initial_page\<lparr>gnssPose := origin_pose\<rparr>))
     = Some \<lparr>latitude = Some 0, longitude = Some 0, altitude = None, level = None\<rparr> \<and>
   cos (0 * pi / 180) \<noteq> (0::real) \<and>
   currentItinerary
     (snd (createItineraryFromCurrentPosition (\<lambda>cs a b m. Inr sample_itinerary) (Inr ())
             (initial_page\<lparr>gnssPose := origin_pose\<rparr>))) = Some sample_itinerary \<and>
   mapMatching_itinerary
     (snd (createItineraryFromCurrentPosition (\<lambda>cs a b m. Inr sample_itinerary) (Inr ())
             (initial_page\<lparr>gnssPose := origin_pose\<rparr>))) = Some sample_itinerary \<and>
   \<not> has_lat_lon (gnssPose initial_page) \<and>
   createItineraryFromCurrentPosition (\<lambda>cs a b m. Inr sample_itinerary) (Inr ()) initial_page
     = (None, initial_page\<lparr>alerts :=
          [''No GPS position available yet. Please start the GNSS source and wait for a position update.'']\<rparr>)"
proof -
  have a: "position (gnssPose (initial_page\<lparr>gnssPose := origin_pose\<rparr>))
     = Some \<lparr>latitude = Some 0, longitude = Some 0, altitude = None, level = None\<rparr>"
    by (simp add: origin_pose_def)
  have b: "\<not> has_lat_lon (gnssPose initial_page)"
    by (simp add: has_lat_lon_def initial_page_def empty_pose_def)
  have c: "alerts initial_page = []" by (simp add: initial_page_def)
  from itinerary_from_current_position
         [of "initial_page\<lparr>gnssPose := origin_pose\<rparr>"
             "\<lparr>latitude = Some 0, longitude = Some 0, altitude = None, level = None\<rparr>" 0 0
             "\<lambda>cs a b m. Inr sample_itinerary" "Inr ()"]
       itinerary_from_current_position
         [of initial_page p 0 0 "\<lambda>cs a b m. Inr sample_itinerary" "Inr ()" for p]
       a b c
  show ?thesis by (simp add: Let_def alert_def)
qed

end
